theory Spec2Isabelle
  imports Main
begin

section \<open>ModalsViewModel (\<^verbatim>\<open>src/script/view_model/ModalsViewModel.js\<close>)\<close>

subsection \<open>Values\<close>

text \<open>
  The JavaScript values that the text fields of a modal can hold: a caller may leave a
  field out (\<open>Undefined\<close>), the default content has \<open>currentType: null\<close>, and
  \<open>!text.htmlMessage && text.message\<close> can produce \<open>false\<close>.
\<close>

datatype jsval = Undefined | Null | Bool bool | Str string

fun truthy :: "jsval \<Rightarrow> bool" where
  "truthy Undefined = False"
| "truthy Null = False"
| "truthy (Bool b) = b"
| "truthy (Str s) = (s \<noteq> [])"

text \<open>The operators \<open>a || b\<close>, \<open>a && b\<close> and \<open>!a\<close> of JavaScript.\<close>

definition js_or :: "jsval \<Rightarrow> jsval \<Rightarrow> jsval" where
  "js_or a b = (if truthy a then a else b)"

definition js_and :: "jsval \<Rightarrow> jsval \<Rightarrow> jsval" where
  "js_and a b = (if truthy a then b else a)"

definition js_not :: "jsval \<Rightarrow> jsval" where
  "js_not a = Bool (\<not> truthy a)"

text \<open>
  Functions held by a modal's content. \<open>noop\<close> is the module's \<open>noop\<close>; \<open>Ext n\<close> is a
  function supplied by the caller of \<open>showModal\<close>, identified by a number. Such a function
  lives outside the manager: the model records each invocation in the trace and takes the
  call to return without calling back into the manager. The background click handler is
  either \<open>noop\<close> or the manager's own \<open>hide\<close>.
\<close>

datatype callback = noop | Ext nat

datatype bg_callback = bg_noop | bg_hide

record modal_content =
  actionFn :: callback
  actionText :: jsval
  checkboxLabel :: jsval
  closeFn :: callback
  currentType :: jsval
  inputPlaceholder :: jsval
  messageHtml :: jsval
  messageText :: jsval
  modalUie :: string
  onBgClick :: bg_callback
  secondaryFn :: callback
  secondaryText :: jsval
  titleText :: jsval

definition defaultContent :: modal_content where
  "defaultContent = \<lparr>
     actionFn = noop,
     actionText = Str [],
     checkboxLabel = Str [],
     closeFn = noop,
     currentType = Null,
     inputPlaceholder = Str [],
     messageHtml = Str [],
     messageText = Str [],
     modalUie = [],
     onBgClick = bg_noop,
     secondaryFn = noop,
     secondaryText = Str [],
     titleText = Str []\<rparr>"

datatype States = CLOSING | NONE | OPEN | READY

subsection \<open>ModalsViewModel.TYPE\<close>

definition ACCOUNT_NEW_DEVICES :: string where
  "ACCOUNT_NEW_DEVICES = ''modal-account-new-devices''"

definition ACCOUNT_READ_RECEIPTS_CHANGED :: string where
  "ACCOUNT_READ_RECEIPTS_CHANGED = ''modal-account-read-receipts-changed''"

definition ACKNOWLEDGE :: string where
  "ACKNOWLEDGE = ''modal-template-acknowledge''"

definition CONFIRM :: string where
  "CONFIRM = ''modal-template-confirm''"

definition INPUT :: string where
  "INPUT = ''modal-template-input''"

definition OPTION :: string where
  "OPTION = ''modal-template-option''"

definition SESSION_RESET :: string where
  "SESSION_RESET = ''modal-session-reset''"

text \<open>\<open>Object.values(ModalsViewModel.TYPE)\<close>, in the order of the object literal.\<close>

definition TYPE_values :: "string list" where
  "TYPE_values = [ACCOUNT_NEW_DEVICES, ACCOUNT_READ_RECEIPTS_CHANGED, ACKNOWLEDGE, CONFIRM,
     INPUT, OPTION, SESSION_RESET]"

subsection \<open>Requests\<close>

text \<open>
  The \<open>options\<close> argument of \<open>showModal\<close>. A property that the caller leaves out is
  \<open>None\<close> (the destructuring defaults of \<open>_showModal\<close> apply to it) and the argument
  itself may be left out. \<open>data\<close> is a list of devices for the new-devices modal and a
  flag for the read-receipts modal.
\<close>

record device =
  time :: string
  model :: string

datatype data = Devices "device list" | Flag bool

record modal_text =
  txt_action :: jsval
  txt_htmlMessage :: jsval
  txt_input :: jsval
  txt_message :: jsval
  txt_option :: jsval
  txt_secondary :: jsval
  txt_title :: jsval

record options =
  opt_action :: "nat option"
  opt_close :: "nat option"
  opt_data :: "data option"
  opt_preventClose :: "bool option"
  opt_secondary :: "nat option"
  opt_text :: "modal_text option"

text \<open>The empty object \<open>{}\<close>, as options and as text.\<close>

definition empty_options :: options where
  "empty_options = \<lparr>opt_action = None, opt_close = None, opt_data = None,
     opt_preventClose = None, opt_secondary = None, opt_text = None\<rparr>"

definition empty_text :: modal_text where
  "empty_text = \<lparr>txt_action = Undefined, txt_htmlMessage = Undefined, txt_input = Undefined,
     txt_message = Undefined, txt_option = Undefined, txt_secondary = Undefined,
     txt_title = Undefined\<rparr>"

record request =
  req_options :: "options option"
  req_type :: string

subsection \<open>The environment of the module\<close>

text \<open>
  What the module imports and does not define: the localizer \<open>t\<close> of
  \<open>utils/LocalizerUtil\<close>, the formatting \<open>moment(x).format('MMMM Do YYYY, HH:mm')\<close> of a
  device's time, and the support link
  \<open>z.util.URLUtil.buildSupportUrl(z.config.SUPPORT.FORM.BUG)\<close>. They are parameters.
\<close>

record env =
  localize :: "string \<Rightarrow> string"
  formatTime :: "string \<Rightarrow> string"
  supportLink :: string

text \<open>
  The exceptions that leave a method: the TypeError of \<open>data.map\<close> on something that is
  not an array, and the error that \<open>ko.applyBindings\<close> raises for an element that is
  bound already.
\<close>

datatype error = TypeError | BindingError

text \<open>
  What the manager does to the outside: \<open>logger.warn\<close>, \<open>ko.applyBindings\<close>, and calls of
  functions that a caller supplied, with their arguments.
\<close>

datatype effect = Warn string | ApplyBindings | Invoke nat "jsval list"

text \<open>
  The manager, with two things that are not fields of the class: the trace of its effects,
  and \<open>bound\<close>, which says whether the element \<open>modals\<close> of the page has been bound to
  the manager. Knockout keeps that mark on the element and \<open>ko.applyBindings\<close> raises when
  it finds it.
\<close>

record manager =
  optionChecked :: bool
  inputValue :: string
  content :: modal_content
  state :: States
  queue :: "request list"
  trace :: "effect list"
  bound :: bool

text \<open>The constructor; the page is not bound yet.\<close>

definition initial :: manager where
  "initial = \<lparr>optionChecked = False, inputValue = [], content = defaultContent,
     state = NONE, queue = [], trace = [], bound = False\<rparr>"

definition isModalVisible :: "manager \<Rightarrow> bool" where
  "isModalVisible s = (state s = OPEN)"

subsection \<open>Building the content of a modal\<close>

definition callback_or_noop :: "nat option \<Rightarrow> callback" where
  "callback_or_noop f = (case f of None \<Rightarrow> noop | Some n \<Rightarrow> Ext n)"

text \<open>The object literal \<open>content\<close> of \<open>_showModal\<close>, before the \<open>switch\<close>.\<close>

definition literal_content :: "string \<Rightarrow> options \<Rightarrow> modal_content" where
  "literal_content type opts =
     (let txt = (case opt_text opts of None \<Rightarrow> empty_text | Some x \<Rightarrow> x);
          preventClose = (case opt_preventClose opts of None \<Rightarrow> False | Some b \<Rightarrow> b)
      in \<lparr>actionFn = callback_or_noop (opt_action opts),
          actionText = txt_action txt,
          checkboxLabel = txt_option txt,
          closeFn = callback_or_noop (opt_close opts),
          currentType = Str type,
          inputPlaceholder = txt_input txt,
          messageHtml = txt_htmlMessage txt,
          messageText = txt_message txt,
          modalUie = type,
          onBgClick = (if preventClose then bg_noop else bg_hide),
          secondaryFn = callback_or_noop (opt_secondary opts),
          secondaryText = txt_secondary txt,
          titleText = txt_title txt\<rparr>)"

definition device_html :: "env \<Rightarrow> device \<Rightarrow> string" where
  "device_html e d =
     (let deviceTime = formatTime e (time d);
          deviceModel = localize e ''modalAccountNewDevicesFrom'' @ '' '' @ model d
      in ''<div>'' @ deviceTime @ '' - UTC</div><div>'' @ deviceModel @ ''</div>'')"

text \<open>
  The \<open>switch\<close> of \<open>_showModal\<close>. \<open>data.map\<close> raises a TypeError when \<open>data\<close> was left
  out or is not an array; that is the only statement of \<open>_showModal\<close> that can raise
  on these inputs, and it runs before the manager is written to.
\<close>

definition switch_content :: "env \<Rightarrow> string \<Rightarrow> options \<Rightarrow> modal_content \<Rightarrow> error + modal_content" where
  "switch_content e type opts c =
     (let txt = (case opt_text opts of None \<Rightarrow> empty_text | Some x \<Rightarrow> x) in
      if type = ACCOUNT_NEW_DEVICES then
        (let c1 = c\<lparr>titleText := Str (localize e ''modalAccountNewDevicesHeadline''),
                     actionText := Str (localize e ''modalAcknowledgeAction''),
                     secondaryText := Str (localize e ''modalAccountNewDevicesSecondary''),
                     messageText := Str (localize e ''modalAccountNewDevicesMessage'')\<rparr>
         in case opt_data opts of
              Some (Devices ds) \<Rightarrow>
                Inr (c1\<lparr>messageHtml := Str (''<div class=\"modal__content__device-list\">''
                        @ concat (map (device_html e) ds) @ ''</div>'')\<rparr>)
            | _ \<Rightarrow> Inl TypeError)
      else if type = ACCOUNT_READ_RECEIPTS_CHANGED then
        Inr (c\<lparr>actionText := Str (localize e ''modalAcknowledgeAction''),
               titleText := Str (localize e
                 (if (case opt_data opts of None \<Rightarrow> False | Some (Flag b) \<Rightarrow> b
                      | Some (Devices ds) \<Rightarrow> True)
                  then ''modalAccountReadReceiptsChangedOnHeadline''
                  else ''modalAccountReadReceiptsChangedOffHeadline'')),
               messageText := Str (localize e ''modalAccountReadReceiptsChangedMessage'')\<rparr>)
      else if type = ACKNOWLEDGE then
        Inr (c\<lparr>actionText := js_or (txt_action txt) (Str (localize e ''modalAcknowledgeAction'')),
               titleText := js_or (txt_title txt) (Str (localize e ''modalAcknowledgeHeadline'')),
               messageText := js_and (js_not (txt_htmlMessage txt)) (txt_message txt)\<rparr>)
      else if type = CONFIRM then
        Inr (c\<lparr>secondaryText := Str (localize e ''modalConfirmSecondary'')\<rparr>)
      else if type = INPUT \<or> type = OPTION then
        Inr (c\<lparr>secondaryText := (if txt_secondary txt \<noteq> Undefined then txt_secondary txt
                                   else Str (localize e ''modalOptionSecondary''))\<rparr>)
      else if type = SESSION_RESET then
        Inr (c\<lparr>titleText := Str (localize e ''modalSessionResetHeadline''),
               actionText := Str (localize e ''modalAcknowledgeAction''),
               messageHtml := Str (localize e ''modalSessionResetMessage1''
                 @ ''<a href=\"'' @ supportLink e
                 @ ''\"rel=\"nofollow noopener noreferrer\" target=\"_blank\">''
                 @ localize e ''modalSessionResetMessageLink'' @ ''</a>''
                 @ localize e ''modalSessionResetMessage2'')\<rparr>)
      else Inr c)"

definition build_content :: "env \<Rightarrow> string \<Rightarrow> options option \<Rightarrow> error + modal_content" where
  "build_content e type options =
     (let opts = (case options of None \<Rightarrow> empty_options | Some x \<Rightarrow> x)
      in switch_content e type opts (literal_content type opts))"

subsection \<open>The methods\<close>

text \<open>
  A method returns the manager as it leaves it, and the exception it raised, if any:
  an exception leaves to the caller, and what was written before it stays written.
  \<open>internal_showModal\<close> is the method \<open>_showModal\<close>.
\<close>

definition unsupported_message :: "string \<Rightarrow> string" where
  "unsupported_message type =
     ''Modal of type '' @ [CHR 0x27] @ type @ [CHR 0x27] @ '' is not supported''"

definition internal_showModal :: "env \<Rightarrow> string \<Rightarrow> options option \<Rightarrow> manager \<Rightarrow> error option \<times> manager" where
  "internal_showModal e type options s =
     (if type \<notin> set TYPE_values
      then (None, s\<lparr>trace := trace s @ [Warn (unsupported_message type)]\<rparr>)
      else case build_content e type options of
             Inl err \<Rightarrow> (Some err, s)
           | Inr c \<Rightarrow> (None, s\<lparr>content := c, state := OPEN\<rparr>))"

definition unqueue :: "env \<Rightarrow> manager \<Rightarrow> error option \<times> manager" where
  "unqueue e s =
     (if state s = READY \<and> queue s \<noteq> []
      then (case queue s of
              r # rest \<Rightarrow> internal_showModal e (req_type r) (req_options r) (s\<lparr>queue := rest\<rparr>)
            | [] \<Rightarrow> (None, s))
      else (None, s))"

definition showModal :: "env \<Rightarrow> string \<Rightarrow> options option \<Rightarrow> manager \<Rightarrow> error option \<times> manager" where
  "showModal e type options s =
     unqueue e (s\<lparr>queue := queue s @ [\<lparr>req_options = options, req_type = type\<rparr>]\<rparr>)"

text \<open>
  \<open>ready\<close> calls \<open>ko.applyBindings\<close> first. On an element that is bound already the call
  raises, and the two statements after it do not run.
\<close>

definition ready :: "env \<Rightarrow> manager \<Rightarrow> error option \<times> manager" where
  "ready e s =
     (if bound s
      then (Some BindingError, s\<lparr>trace := trace s @ [ApplyBindings]\<rparr>)
      else unqueue e (s\<lparr>trace := trace s @ [ApplyBindings], bound := True, state := READY\<rparr>))"

definition hasInput :: "manager \<Rightarrow> bool" where
  "hasInput s = (currentType (content s) = Str INPUT)"

definition hasOption :: "manager \<Rightarrow> bool" where
  "hasOption s = (currentType (content s) = Str OPTION)"

text \<open>Calling a function of the content with arguments.\<close>

definition invoke :: "callback \<Rightarrow> jsval list \<Rightarrow> manager \<Rightarrow> manager" where
  "invoke f args s = (case f of noop \<Rightarrow> s | Ext n \<Rightarrow> s\<lparr>trace := trace s @ [Invoke n args]\<rparr>)"

definition confirm :: "manager \<Rightarrow> manager" where
  "confirm s =
     (if currentType (content s) = Str OPTION
      then invoke (actionFn (content s)) [Bool (optionChecked s)] s
      else if currentType (content s) = Str INPUT
      then invoke (actionFn (content s)) [Str (inputValue s)] s
      else invoke (actionFn (content s)) [] s)"

definition hide :: "manager \<Rightarrow> manager" where
  "hide s = (let s1 = s\<lparr>state := CLOSING\<rparr> in invoke (closeFn (content s1)) [] s1)"

definition doAction :: "manager \<Rightarrow> manager" where
  "doAction s = hide (confirm s)"

definition doSecondary :: "manager \<Rightarrow> manager" where
  "doSecondary s = hide (invoke (secondaryFn (content s)) [] s)"

text \<open>The four assignments of \<open>onModalHidden\<close>, before its call of \<open>unqueue\<close>.\<close>

definition reset_modal :: "manager \<Rightarrow> manager" where
  "reset_modal s = s\<lparr>content := defaultContent, inputValue := [], optionChecked := False,
     state := READY\<rparr>"

definition onModalHidden :: "env \<Rightarrow> manager \<Rightarrow> error option \<times> manager" where
  "onModalHidden e s = unqueue e (reset_modal s)"

subsection \<open>Sequences of calls\<close>

text \<open>
  The calls that the application and the view make on the manager. \<open>BgClick\<close> is the view
  calling \<open>content().onBgClick\<close>; \<open>SetInput\<close> and \<open>SetChecked\<close> are the view writing the
  two observables that are bound to the input field and the checkbox.
\<close>

datatype call =
    ShowModal string "options option"
  | Ready
  | Unqueue
  | Confirm
  | DoAction
  | DoSecondary
  | Hide
  | OnModalHidden
  | BgClick
  | SetInput string
  | SetChecked bool

fun exec :: "env \<Rightarrow> call \<Rightarrow> manager \<Rightarrow> error option \<times> manager" where
  "exec e (ShowModal type options) s = showModal e type options s"
| "exec e Ready s = ready e s"
| "exec e Unqueue s = unqueue e s"
| "exec e Confirm s = (None, confirm s)"
| "exec e DoAction s = (None, doAction s)"
| "exec e DoSecondary s = (None, doSecondary s)"
| "exec e Hide s = (None, hide s)"
| "exec e OnModalHidden s = onModalHidden e s"
| "exec e BgClick s = (None, case onBgClick (content s) of bg_noop \<Rightarrow> s | bg_hide \<Rightarrow> hide s)"
| "exec e (SetInput v) s = (None, s\<lparr>inputValue := v\<rparr>)"
| "exec e (SetChecked b) s = (None, s\<lparr>optionChecked := b\<rparr>)"

text \<open>
  Each call is an event handler of its own: an exception ends that call only, and the
  next call finds the manager as the failed one left it.
\<close>

fun run :: "env \<Rightarrow> call list \<Rightarrow> manager \<Rightarrow> manager" where
  "run e [] s = s"
| "run e (c # cs) s = run e cs (snd (exec e c s))"

subsection \<open>Predicates on requests and on sequences of calls\<close>

text \<open>
  A request that \<open>_showModal\<close> displays: its type is one of \<open>ModalsViewModel.TYPE\<close> and
  building its content does not raise.
\<close>

definition displayable :: "env \<Rightarrow> request \<Rightarrow> bool" where
  "displayable e r =
     (req_type r \<in> set TYPE_values
      \<and> (case build_content e (req_type r) (req_options r) of Inl err \<Rightarrow> False | Inr c \<Rightarrow> True))"

text \<open>The view closing a modal \<open>n\<close> times: \<open>hide\<close>, then \<open>onModalHidden\<close> after the animation.\<close>

definition rounds :: "nat \<Rightarrow> call list" where
  "rounds n = concat (replicate n [Hide, OnModalHidden])"





text \<open>An environment for the examples: the localizer returns the key it is given.\<close>

definition example_env :: env where
  "example_env = \<lparr>localize = (\<lambda>k. k), formatTime = (\<lambda>x. x),
     supportLink = ''https://support.example''\<rparr>"

section \<open>MentionSuggestionList (\<^verbatim>\<open>src/script/page/message-list/MentionSuggestions/MentionSuggestions.tsx\<close>)\<close>

text \<open>
  Modelled from the spec: \<open>clamp\<close> of \<open>Util/NumberUtil\<close>, which the component imports and
  which is not among the sources. The spec speaks of a "selection index clamped to bounds",
  "clamped to [0, length-1]": a value below the lower bound becomes the lower bound, a value
  above the upper bound becomes the upper bound, a value between them is kept. The arguments
  are in the order of the call \<open>clamp(curr + delta, 0, suggestions.length - 1)\<close>. The
  spec does not say what an empty range gives; no result below depends on it.
\<close>

definition clamp :: "int \<Rightarrow> int \<Rightarrow> int \<Rightarrow> int" where
  "clamp v lower upper = max lower (min upper v)"

text \<open>
  The table \<open>KEY\<close> of \<open>Util/KeyboardUtil\<close> is imported as well; the four names that the
  component uses are parameters.
\<close>

record key_table =
  ARROW_DOWN :: string
  ARROW_UP :: string
  ENTER :: string
  TAB :: string

text \<open>A keyboard event: what the handler reads, and the two flags that it sets.\<close>

record key_event =
  key :: string
  shiftKey :: bool
  defaultPrevented :: bool
  propagationStopped :: bool

definition preventDefault :: "key_event \<Rightarrow> key_event" where
  "preventDefault ev = ev\<lparr>defaultPrevented := True\<rparr>"

definition stopPropagation :: "key_event \<Rightarrow> key_event" where
  "stopPropagation ev = ev\<lparr>propagationStopped := True\<rparr>"

text \<open>
  The component's state \<open>selectedSuggestionIndex\<close>, and the calls of the property
  \<open>onSelectionValidated\<close> that it made: the suggestion passed (\<open>None\<close> for
  \<open>undefined\<close>) and the input element, which is identified by a number.
\<close>

record 'u component =
  selectedSuggestionIndex :: int
  validated :: "('u option \<times> nat) list"

text \<open>\<open>suggestions[i]\<close>: \<open>undefined\<close> outside the array.\<close>

definition at_index :: "'u list \<Rightarrow> int \<Rightarrow> 'u option" where
  "at_index xs i = (if 0 \<le> i \<and> i < int (length xs) then Some (xs ! nat i) else None)"

definition updateSelectedIndex :: "'u list \<Rightarrow> int \<Rightarrow> 'u component \<Rightarrow> 'u component" where
  "updateSelectedIndex suggestions delta c =
     c\<lparr>selectedSuggestionIndex :=
         clamp (selectedSuggestionIndex c + delta) 0 (int (length suggestions) - 1)\<rparr>"

datatype action = moveSelection int | validateSelection

text \<open>
  The object \<open>actions\<close>: its keys are computed, and a later entry of an object literal
  replaces an earlier one with the same key.
\<close>

definition actions :: "key_table \<Rightarrow> string \<Rightarrow> action option" where
  "actions K = [ARROW_UP K \<mapsto> moveSelection 1, ARROW_DOWN K \<mapsto> moveSelection (- 1),
     ENTER K \<mapsto> validateSelection, TAB K \<mapsto> validateSelection]"

text \<open>
  The handler \<open>onInput\<close> that an effect run creates. \<open>selected\<close> is the
  \<open>selectedSuggestionIndex\<close> of the render that ran the effect; \<open>updateSelectedIndex\<close>
  reads the current state instead.
\<close>

definition onInput ::
  "key_table \<Rightarrow> 'u list \<Rightarrow> int \<Rightarrow> nat option \<Rightarrow> key_event \<Rightarrow> 'u component
     \<Rightarrow> key_event \<times> 'u component" where
  "onInput K suggestions selected targetInput event c =
     (case actions K (key event) of
        None \<Rightarrow> (event, c)
      | Some (moveSelection delta) \<Rightarrow>
          (stopPropagation (preventDefault event), updateSelectedIndex suggestions delta c)
      | Some validateSelection \<Rightarrow>
          (case targetInput of
             Some el \<Rightarrow>
               if \<not> shiftKey event
               then (stopPropagation (preventDefault event),
                     c\<lparr>validated := validated c @ [(at_index suggestions selected, el)]\<rparr>)
               else (event, c)
           | None \<Rightarrow> (event, c)))"

text \<open>
  The listeners of each element of the page: the event type and the listener, which is
  identified by a number. \<open>addEventListener\<close> does not add a listener twice.
\<close>

type_synonym dom = "nat \<Rightarrow> (string \<times> nat) list"

definition addEventListener :: "nat \<Rightarrow> string \<Rightarrow> nat \<Rightarrow> dom \<Rightarrow> dom" where
  "addEventListener el type h d =
     d(el := (if (type, h) \<in> set (d el) then d el else d el @ [(type, h)]))"

definition removeEventListener :: "nat \<Rightarrow> string \<Rightarrow> nat \<Rightarrow> dom \<Rightarrow> dom" where
  "removeEventListener el type h d = d(el := filter (\<lambda>l. l \<noteq> (type, h)) (d el))"

text \<open>
  One run of the effect that installs the handler, and the cleanup that this run returns.
  \<open>h\<close> identifies the handler \<open>onInput\<close> that the run created.
\<close>

definition effect_run ::
  "'u list \<Rightarrow> nat option \<Rightarrow> nat \<Rightarrow> dom \<times> 'u component \<Rightarrow> dom \<times> 'u component" where
  "effect_run suggestions targetInput h dc =
     (let isVisible = (length suggestions > 0);
          d = (case targetInput of
                 Some el \<Rightarrow> if isVisible then addEventListener el ''keydown'' h (fst dc) else fst dc
               | None \<Rightarrow> fst dc)
      in (d, updateSelectedIndex suggestions 0 (snd dc)))"

definition effect_cleanup :: "nat option \<Rightarrow> nat \<Rightarrow> dom \<Rightarrow> dom" where
  "effect_cleanup targetInput h d =
     (case targetInput of Some el \<Rightarrow> removeEventListener el ''keydown'' h d | None \<Rightarrow> d)"

text \<open>
  A key press on the target input while the handler is attached. The state change of one
  key press is rendered, and the handler installed again, before the next one arrives, so
  the handler's \<open>selected\<close> is the current state.
\<close>

definition keydown ::
  "key_table \<Rightarrow> 'u list \<Rightarrow> nat option \<Rightarrow> key_event \<Rightarrow> 'u component \<Rightarrow> key_event \<times> 'u component" where
  "keydown K suggestions targetInput event c =
     onInput K suggestions (selectedSuggestionIndex c) targetInput event c"

fun keydowns ::
  "key_table \<Rightarrow> 'u list \<Rightarrow> nat option \<Rightarrow> key_event list \<Rightarrow> 'u component \<Rightarrow> 'u component" where
  "keydowns K suggestions targetInput [] c = c"
| "keydowns K suggestions targetInput (event # events) c =
     keydowns K suggestions targetInput events (snd (keydown K suggestions targetInput event c))"

text \<open>
  The list as it is drawn: \<open>suggestions.map(...).reverse()\<close>, each item with its
  \<open>isSelected\<close>.
\<close>

definition rendered :: "'u list \<Rightarrow> int \<Rightarrow> ('u \<times> bool) list" where
  "rendered suggestions selected =
     rev (map (\<lambda>(index, suggestion). (suggestion, int index = selected)) (enumerate 0 suggestions))"

text \<open>The key names of the examples.\<close>

definition example_keys :: key_table where
  "example_keys = \<lparr>ARROW_DOWN = ''ArrowDown'', ARROW_UP = ''ArrowUp'', ENTER = ''Enter'',
     TAB = ''Tab''\<rparr>"

section \<open>Conversations sidebar (\<^verbatim>\<open>src/unnamed/part_000\<close>)\<close>

datatype SidebarTabs =
  RECENT | FOLDER | FAVORITES | GROUPS | DIRECTS | ARCHIVES | CONNECT | PREFERENCES

text \<open>
  The enumerations \<open>ViewType\<close>, \<open>ListState\<close> and \<open>ContentState\<close> are imported; the members
  that \<open>changeTab\<close> reaches are listed, each under the name of its enumeration.
\<close>

datatype ViewType = ViewType_LEFT_SIDEBAR | ViewType_CENTRAL_COLUMN

datatype ListState = ListState_CONVERSATIONS | ListState_PREFERENCES

datatype ContentState = ContentState_CONVERSATION | ContentState_PREFERENCES_ACCOUNT

text \<open>
  The calls that the component makes on the objects it is given:
  \<open>conversationRepository.updateArchivedConversations()\<close>, \<open>setCurrentView\<close>,
  \<open>listViewModel.switchList\<close> and \<open>listViewModel.contentViewModel.switchContent\<close>.
\<close>

datatype sidebar_call =
    updateArchivedConversations
  | setCurrentView ViewType
  | switchList ListState
  | switchContent ContentState

text \<open>
  The two pieces of state that \<open>changeTab\<close> sets, as the next render sees them, and the
  calls made so far.
\<close>

record sidebar =
  conversationsFilter :: string
  currentTab :: SidebarTabs
  calls :: "sidebar_call list"

definition onExitPreferences :: "sidebar \<Rightarrow> sidebar" where
  "onExitPreferences s =
     s\<lparr>calls := calls s @ [setCurrentView ViewType_LEFT_SIDEBAR,
          switchList ListState_CONVERSATIONS, switchContent ContentState_CONVERSATION]\<rparr>"

definition changeTab :: "SidebarTabs \<Rightarrow> sidebar \<Rightarrow> sidebar" where
  "changeTab nextTab s =
     (let s1 = (if nextTab = ARCHIVES then s\<lparr>calls := calls s @ [updateArchivedConversations]\<rparr>
                else s);
          s2 = (if nextTab \<noteq> PREFERENCES then onExitPreferences s1 else s1)
      in s2\<lparr>conversationsFilter := [], currentTab := nextTab\<rparr>)"

text \<open>The search input's \<open>onChange\<close>.\<close>

definition onChange :: "string \<Rightarrow> sidebar \<Rightarrow> sidebar" where
  "onChange v s = s\<lparr>conversationsFilter := v\<rparr>"

section \<open>Properties of the modal manager\<close>

subsection \<open>Auxiliary facts\<close>

lemmas TYPE_defs = ACCOUNT_NEW_DEVICES_def ACCOUNT_READ_RECEIPTS_CHANGED_def ACKNOWLEDGE_def
  CONFIRM_def INPUT_def OPTION_def SESSION_RESET_def

lemmas eval_defs = showModal_def unqueue_def internal_showModal_def build_content_def
  switch_content_def literal_content_def callback_or_noop_def empty_options_def empty_text_def
  ready_def hide_def invoke_def onModalHidden_def reset_modal_def confirm_def doAction_def
  doSecondary_def TYPE_values_def TYPE_defs initial_def defaultContent_def example_env_def
  unsupported_message_def

lemma unqueue_not_ready: "state s \<noteq> READY \<Longrightarrow> unqueue e s = (None, s)"
  by (simp add: unqueue_def)

lemma showModal_not_ready:
  "state s \<noteq> READY \<Longrightarrow> showModal e type options s
     = (None, s\<lparr>queue := queue s @ [\<lparr>req_options = options, req_type = type\<rparr>]\<rparr>)"
  by (simp add: showModal_def unqueue_def)

lemma request_eta: "\<lparr>req_options = req_options r, req_type = req_type r\<rparr> = (r::request)"
  by (cases r) simp

lemma run_showModal_not_ready:
  "state s \<noteq> READY \<Longrightarrow>
   run e (map (\<lambda>r. ShowModal (req_type r) (req_options r)) rs) s = s\<lparr>queue := queue s @ rs\<rparr>"
proof (induction rs arbitrary: s)
  case Nil
  then show ?case by simp
next
  case (Cons r rs)
  have "run e (map (\<lambda>r. ShowModal (req_type r) (req_options r)) (r # rs)) s
      = run e (map (\<lambda>r. ShowModal (req_type r) (req_options r)) rs) (s\<lparr>queue := queue s @ [r]\<rparr>)"
    using Cons.prems by (simp add: showModal_not_ready request_eta)
  also have "\<dots> = s\<lparr>queue := queue s @ [r]\<rparr>\<lparr>queue := queue (s\<lparr>queue := queue s @ [r]\<rparr>) @ rs\<rparr>"
    using Cons.prems by (intro Cons.IH) simp
  finally show ?case by simp
qed

lemma unqueue_ready_cons:
  "state s = READY \<Longrightarrow> queue s = r # rest \<Longrightarrow>
   unqueue e s = internal_showModal e (req_type r) (req_options r) (s\<lparr>queue := rest\<rparr>)"
  by (simp add: unqueue_def)

lemma internal_showModal_supported:
  "type \<in> set TYPE_values \<Longrightarrow> build_content e type options = Inr c \<Longrightarrow>
   internal_showModal e type options s = (None, s\<lparr>content := c, state := OPEN\<rparr>)"
  by (simp add: internal_showModal_def)

lemma internal_showModal_unsupported:
  "type \<notin> set TYPE_values \<Longrightarrow>
   internal_showModal e type options s = (None, s\<lparr>trace := trace s @ [Warn (unsupported_message type)]\<rparr>)"
  by (simp add: internal_showModal_def)

lemma internal_showModal_raises:
  "type \<in> set TYPE_values \<Longrightarrow> build_content e type options = Inl err \<Longrightarrow>
   internal_showModal e type options s = (Some err, s)"
  by (simp add: internal_showModal_def)

lemma unqueue_fields:
  "inputValue (snd (unqueue e s)) = inputValue s \<and> optionChecked (snd (unqueue e s)) = optionChecked s"
  by (simp add: unqueue_def internal_showModal_def split: list.splits sum.splits)

lemma unqueue_empty: "queue s = [] \<Longrightarrow> unqueue e s = (None, s)"
  by (simp add: unqueue_def)

lemma hide_queue: "queue (hide s) = queue s"
  by (simp add: hide_def invoke_def Let_def split: callback.splits)

lemma onModalHidden_shows_oldest:
  assumes "queue s = r # rest" and "displayable e r"
  shows "\<exists>c. build_content e (req_type r) (req_options r) = Inr c
           \<and> onModalHidden e s = (None, (reset_modal s)\<lparr>queue := rest, content := c, state := OPEN\<rparr>)"
proof -
  from assms(2) obtain c where t: "req_type r \<in> set TYPE_values"
    and c: "build_content e (req_type r) (req_options r) = Inr c"
    by (auto simp: displayable_def split: sum.splits)
  have "onModalHidden e s
      = internal_showModal e (req_type r) (req_options r) ((reset_modal s)\<lparr>queue := rest\<rparr>)"
    using assms(1) by (simp add: onModalHidden_def unqueue_def reset_modal_def)
  with t c show ?thesis
    by (simp add: internal_showModal_supported)
qed

lemma run_append: "run e (cs @ ds) s = run e ds (run e cs s)"
  by (induction cs arbitrary: s) simp_all

lemma round_shows_oldest:
  assumes "queue s = r # rest" and "displayable e r"
  shows "state (run e [Hide, OnModalHidden] s) = OPEN
         \<and> build_content e (req_type r) (req_options r) = Inr (content (run e [Hide, OnModalHidden] s))
         \<and> queue (run e [Hide, OnModalHidden] s) = rest"
proof -
  have "queue (hide s) = r # rest"
    using assms(1) by (simp add: hide_queue)
  from onModalHidden_shows_oldest [OF this assms(2)]
  obtain c where "build_content e (req_type r) (req_options r) = Inr c"
    and "onModalHidden e (hide s)
           = (None, (reset_modal (hide s))\<lparr>queue := rest, content := c, state := OPEN\<rparr>)"
    by blast
  then show ?thesis by simp
qed












subsection \<open>The queue is served oldest first\<close>

text \<open>
  Claim C1 says that requests made while the manager is not \<open>READY\<close> surface in arrival
  order once it is \<open>READY\<close>, and that \<open>unqueue\<close>, fired in state \<open>READY\<close> with a
  non-empty queue, removes the oldest request and displays that request. The second half
  fails for a request of an unsupported type: \<open>unqueue\<close> removes it and \<open>_showModal\<close>
  drops it. Below, an unsupported request is queued before the view is bound; \<open>ready\<close>
  removes it from the queue and the manager stays \<open>READY\<close> with the default content.
\<close>

theorem unqueue_fifo_counterexample:
  "state (run example_env [ShowModal ''modal-unknown'' None, Ready] initial) = READY
   \<and> queue (run example_env [ShowModal ''modal-unknown'' None] initial)
       = [\<lparr>req_options = None, req_type = ''modal-unknown''\<rparr>]
   \<and> queue (run example_env [ShowModal ''modal-unknown'' None, Ready] initial) = []
   \<and> content (run example_env [ShowModal ''modal-unknown'' None, Ready] initial) = defaultContent"
  by (simp add: eval_defs)

text \<open>
  Claim C1, as the code has it. While the manager is not \<open>READY\<close>, a sequence of
  \<open>showModal\<close> calls appends its requests to the queue in the order of the calls and
  changes nothing else. When \<open>unqueue\<close> runs in state \<open>READY\<close> with a non-empty queue, it
  removes exactly the oldest request and leaves the others in order; if that request has a
  supported type and its content can be built, the manager is \<open>OPEN\<close> with that content;
  if building its content raises, the exception leaves \<open>unqueue\<close> and the manager stays
  \<open>READY\<close>; if its type is unsupported, a warning is logged and the manager stays
  \<open>READY\<close>. In particular, when requests were queued before the view is bound and the
  oldest of them can be displayed, the \<open>ready\<close> that binds the view displays it and leaves
  the others queued in order.
\<close>

theorem unqueue_fifo:
  "(state s \<noteq> READY \<longrightarrow>
      run e (map (\<lambda>r. ShowModal (req_type r) (req_options r)) rs) s = s\<lparr>queue := queue s @ rs\<rparr>)
   \<and> (state s = READY \<and> queue s = r # rest \<longrightarrow>
        queue (snd (unqueue e s)) = rest
        \<and> (req_type r \<in> set TYPE_values \<and> build_content e (req_type r) (req_options r) = Inr c
            \<longrightarrow> unqueue e s = (None, s\<lparr>queue := rest, content := c, state := OPEN\<rparr>))
        \<and> (req_type r \<in> set TYPE_values \<and> build_content e (req_type r) (req_options r) = Inl err
            \<longrightarrow> unqueue e s = (Some err, s\<lparr>queue := rest\<rparr>))
        \<and> (req_type r \<notin> set TYPE_values
            \<longrightarrow> unqueue e s
                = (None, s\<lparr>queue := rest, trace := trace s @ [Warn (unsupported_message (req_type r))]\<rparr>)))
   \<and> (\<not> bound s \<and> state s \<noteq> READY \<and> queue s = [] \<and> req_type r \<in> set TYPE_values
        \<and> build_content e (req_type r) (req_options r) = Inr c \<longrightarrow>
        ready e (run e (map (\<lambda>r. ShowModal (req_type r) (req_options r)) (r # rest)) s)
          = (None, s\<lparr>content := c, state := OPEN, queue := rest,
                      trace := trace s @ [ApplyBindings], bound := True\<rparr>))"
proof (intro conjI impI)
  assume "state s \<noteq> READY"
  then show "run e (map (\<lambda>r. ShowModal (req_type r) (req_options r)) rs) s = s\<lparr>queue := queue s @ rs\<rparr>"
    by (rule run_showModal_not_ready)
next
  assume a: "state s = READY \<and> queue s = r # rest"
  then have u: "unqueue e s = internal_showModal e (req_type r) (req_options r) (s\<lparr>queue := rest\<rparr>)"
    by (simp add: unqueue_ready_cons)
  show "queue (snd (unqueue e s)) = rest"
    unfolding u by (simp add: internal_showModal_def split: sum.splits)
  {
    assume "req_type r \<in> set TYPE_values \<and> build_content e (req_type r) (req_options r) = Inr c"
    then show "unqueue e s = (None, s\<lparr>queue := rest, content := c, state := OPEN\<rparr>)"
      unfolding u by (simp add: internal_showModal_supported)
  }
  {
    assume "req_type r \<in> set TYPE_values \<and> build_content e (req_type r) (req_options r) = Inl err"
    then show "unqueue e s = (Some err, s\<lparr>queue := rest\<rparr>)"
      unfolding u by (simp add: internal_showModal_raises)
  }
  {
    assume "req_type r \<notin> set TYPE_values"
    then show "unqueue e s
        = (None, s\<lparr>queue := rest, trace := trace s @ [Warn (unsupported_message (req_type r))]\<rparr>)"
      unfolding u by (simp add: internal_showModal_unsupported)
  }
next
  assume a: "\<not> bound s \<and> state s \<noteq> READY \<and> queue s = [] \<and> req_type r \<in> set TYPE_values
        \<and> build_content e (req_type r) (req_options r) = Inr c"
  then have r: "run e (map (\<lambda>r. ShowModal (req_type r) (req_options r)) (r # rest)) s
      = s\<lparr>queue := r # rest\<rparr>"
    using run_showModal_not_ready [of s e "r # rest"] by simp
  have "ready e (s\<lparr>queue := r # rest\<rparr>)
      = (None, s\<lparr>content := c, state := OPEN, queue := rest,
                  trace := trace s @ [ApplyBindings], bound := True\<rparr>)"
    using a by (simp add: ready_def unqueue_def internal_showModal_def)
  then show "ready e (run e (map (\<lambda>r. ShowModal (req_type r) (req_options r)) (r # rest)) s)
      = (None, s\<lparr>content := c, state := OPEN, queue := rest,
                  trace := trace s @ [ApplyBindings], bound := True\<rparr>)"
    unfolding r .
qed

theorem unqueue_fifo_witness:
  "run example_env (map (\<lambda>r. ShowModal (req_type r) (req_options r))
       [\<lparr>req_options = None, req_type = CONFIRM\<rparr>, \<lparr>req_options = None, req_type = INPUT\<rparr>]) initial
     = initial\<lparr>queue := [\<lparr>req_options = None, req_type = CONFIRM\<rparr>,
                            \<lparr>req_options = None, req_type = INPUT\<rparr>]\<rparr>
   \<and> ready example_env (run example_env (map (\<lambda>r. ShowModal (req_type r) (req_options r))
       [\<lparr>req_options = None, req_type = CONFIRM\<rparr>, \<lparr>req_options = None, req_type = INPUT\<rparr>]) initial)
     = (None, initial\<lparr>state := OPEN, queue := [\<lparr>req_options = None, req_type = INPUT\<rparr>],
          content := (literal_content CONFIRM empty_options)\<lparr>secondaryText := Str ''modalConfirmSecondary''\<rparr>,
          trace := [ApplyBindings], bound := True\<rparr>)
   \<and> unqueue example_env (initial\<lparr>state := READY,
          queue := [\<lparr>req_options = None, req_type = CONFIRM\<rparr>, \<lparr>req_options = None, req_type = INPUT\<rparr>]\<rparr>)
     = (None, initial\<lparr>state := OPEN, queue := [\<lparr>req_options = None, req_type = INPUT\<rparr>],
          content := (literal_content CONFIRM empty_options)\<lparr>secondaryText := Str ''modalConfirmSecondary''\<rparr>\<rparr>)
   \<and> unqueue example_env (initial\<lparr>state := READY,
          queue := [\<lparr>req_options = None, req_type = ACCOUNT_NEW_DEVICES\<rparr>, \<lparr>req_options = None, req_type = INPUT\<rparr>]\<rparr>)
     = (Some TypeError, initial\<lparr>state := READY, queue := [\<lparr>req_options = None, req_type = INPUT\<rparr>]\<rparr>)
   \<and> unqueue example_env (initial\<lparr>state := READY,
          queue := [\<lparr>req_options = None, req_type = ''modal-unknown''\<rparr>, \<lparr>req_options = None, req_type = INPUT\<rparr>]\<rparr>)
     = (None, initial\<lparr>state := READY, queue := [\<lparr>req_options = None, req_type = INPUT\<rparr>],
          trace := [Warn (unsupported_message ''modal-unknown'')]\<rparr>)"
proof -
  let ?c = "\<lparr>req_options = None, req_type = CONFIRM\<rparr>"
  let ?i = "\<lparr>req_options = None, req_type = INPUT\<rparr>"
  let ?d = "\<lparr>req_options = None, req_type = ACCOUNT_NEW_DEVICES\<rparr>"
  let ?u = "\<lparr>req_options = None, req_type = ''modal-unknown''\<rparr>"
  let ?shown = "(literal_content CONFIRM empty_options)\<lparr>secondaryText := Str ''modalConfirmSecondary''\<rparr>"
  have b: "build_content example_env CONFIRM None = Inr ?shown"
    by (simp add: build_content_def switch_content_def TYPE_defs example_env_def)
  have t: "build_content example_env ACCOUNT_NEW_DEVICES None = Inl TypeError"
    by (simp add: build_content_def switch_content_def empty_options_def)
  have 1: "state initial \<noteq> READY" "queue initial = []" "\<not> bound initial"
    by (simp_all add: initial_def)
  have 2: "CONFIRM \<in> set TYPE_values" "ACCOUNT_NEW_DEVICES \<in> set TYPE_values"
    by (simp_all add: TYPE_values_def)
  have 3: "''modal-unknown'' \<notin> set TYPE_values" by (simp add: TYPE_values_def TYPE_defs)
  let ?ready = "initial\<lparr>state := READY\<rparr>"
  have 4: "state (?ready\<lparr>queue := q\<rparr>) = READY" "queue (?ready\<lparr>queue := q\<rparr>) = q" for q
    by simp_all
  note not_ready = unqueue_fifo [of initial example_env "[?c, ?i]" ?c "[?i]" ?shown]
  have c1: "run example_env (map (\<lambda>r. ShowModal (req_type r) (req_options r)) [?c, ?i]) initial
      = initial\<lparr>queue := [?c, ?i]\<rparr>"
    using not_ready [THEN conjunct1] 1 by simp
  have c2: "ready example_env
        (run example_env (map (\<lambda>r. ShowModal (req_type r) (req_options r)) [?c, ?i]) initial)
      = (None, initial\<lparr>content := ?shown, state := OPEN, queue := [?i], trace := [ApplyBindings],
           bound := True\<rparr>)"
    using not_ready [THEN conjunct2, THEN conjunct2] 1 2 b by (simp add: initial_def)
  have c3: "unqueue example_env (?ready\<lparr>queue := [?c, ?i]\<rparr>)
      = (None, ?ready\<lparr>queue := [?c, ?i]\<rparr>\<lparr>queue := [?i], content := ?shown, state := OPEN\<rparr>)"
    using unqueue_fifo [of "?ready\<lparr>queue := [?c, ?i]\<rparr>" example_env _ ?c "[?i]" ?shown,
        THEN conjunct2, THEN conjunct1] 2 b
    by simp
  have c4: "unqueue example_env (?ready\<lparr>queue := [?d, ?i]\<rparr>)
      = (Some TypeError, ?ready\<lparr>queue := [?d, ?i]\<rparr>\<lparr>queue := [?i]\<rparr>)"
    using unqueue_fifo [of "?ready\<lparr>queue := [?d, ?i]\<rparr>" example_env _ ?d "[?i]" _ TypeError,
        THEN conjunct2, THEN conjunct1] 2 t
    by simp
  have c5: "unqueue example_env (?ready\<lparr>queue := [?u, ?i]\<rparr>)
      = (None, ?ready\<lparr>queue := [?u, ?i]\<rparr>\<lparr>queue := [?i],
           trace := trace (?ready\<lparr>queue := [?u, ?i]\<rparr>) @ [Warn (unsupported_message ''modal-unknown'')]\<rparr>)"
    using unqueue_fifo [of "?ready\<lparr>queue := [?u, ?i]\<rparr>" example_env _ ?u "[?i]",
        THEN conjunct2, THEN conjunct1] 3
    by simp
  from c1 c2 c3 c4 c5 show ?thesis
    by (simp add: initial_def)
qed

subsection \<open>Unsupported types\<close>

text \<open>
  Claim C2 says that \<open>showModal\<close> with an unsupported type leaves the whole state of the
  manager, the queue included, as it was. \<open>showModal\<close> checks nothing: it appends the
  request to the queue, and the type is checked only when \<open>unqueue\<close> hands the request
  to \<open>_showModal\<close>. Called on the manager that the constructor made, it changes the queue.
\<close>

theorem showModal_unsupported_counterexample:
  "queue initial = []
   \<and> queue (snd (showModal example_env ''modal-unknown'' None initial))
       = [\<lparr>req_options = None, req_type = ''modal-unknown''\<rparr>]"
  by (simp add: eval_defs)

text \<open>
  Claim C2, as the code has it. For a type that is not in \<open>ModalsViewModel.TYPE\<close>:
  \<open>_showModal\<close> logs a warning and leaves the manager as it was; \<open>showModal\<close>, called in
  state \<open>READY\<close> with an empty queue, logs the warning and leaves lifecycle state, content,
  queue, input value and checkbox value as they were; \<open>showModal\<close>, called in another
  state, appends the request to the queue and leaves the rest as it was.
\<close>

theorem showModal_unsupported:
  assumes "type \<notin> set TYPE_values"
  shows "internal_showModal e type options s
           = (None, s\<lparr>trace := trace s @ [Warn (unsupported_message type)]\<rparr>)
         \<and> (state s = READY \<and> queue s = [] \<longrightarrow>
              showModal e type options s
                = (None, s\<lparr>trace := trace s @ [Warn (unsupported_message type)]\<rparr>))
         \<and> (state s \<noteq> READY \<longrightarrow>
              showModal e type options s
                = (None, s\<lparr>queue := queue s @ [\<lparr>req_options = options, req_type = type\<rparr>]\<rparr>))"
proof (intro conjI impI)
  show "internal_showModal e type options s
      = (None, s\<lparr>trace := trace s @ [Warn (unsupported_message type)]\<rparr>)"
    using assms by (rule internal_showModal_unsupported)
next
  assume a: "state s = READY \<and> queue s = []"
  let ?r = "\<lparr>req_options = options, req_type = type\<rparr>"
  have "showModal e type options s = internal_showModal e type options (s\<lparr>queue := []\<rparr>)"
    using a by (simp add: showModal_def unqueue_def)
  moreover have "s\<lparr>queue := []\<rparr> = s"
    using a by simp
  ultimately show "showModal e type options s
      = (None, s\<lparr>trace := trace s @ [Warn (unsupported_message type)]\<rparr>)"
    using assms by (simp add: internal_showModal_unsupported)
next
  assume "state s \<noteq> READY"
  then show "showModal e type options s
      = (None, s\<lparr>queue := queue s @ [\<lparr>req_options = options, req_type = type\<rparr>]\<rparr>)"
    by (rule showModal_not_ready)
qed

theorem showModal_unsupported_witness:
  "''modal-unknown'' \<notin> set TYPE_values
   \<and> showModal example_env ''modal-unknown'' None (initial\<lparr>state := READY\<rparr>)
       = (None, initial\<lparr>state := READY, trace := [Warn (unsupported_message ''modal-unknown'')]\<rparr>)
   \<and> showModal example_env ''modal-unknown'' None (initial\<lparr>state := OPEN\<rparr>)
       = (None, initial\<lparr>state := OPEN, queue := [\<lparr>req_options = None, req_type = ''modal-unknown''\<rparr>]\<rparr>)"
proof -
  have 3: "''modal-unknown'' \<notin> set TYPE_values" by (simp add: TYPE_values_def TYPE_defs)
  show ?thesis
    using showModal_unsupported [OF 3, of example_env None "initial\<lparr>state := READY\<rparr>"]
      showModal_unsupported [OF 3, of example_env None "initial\<lparr>state := OPEN\<rparr>"] 3
    by (simp add: initial_def)
qed

subsection \<open>Draining the queue\<close>

text \<open>
  Claim C3 says that every queued request is eventually shown and that none is left in
  the queue while the manager sits in \<open>READY\<close>. Below, the manager shows a modal while an
  unsupported request and then a supported one are queued. When the modal is hidden,
  \<open>onModalHidden\<close> calls \<open>unqueue\<close> once: the unsupported request is removed and dropped,
  and the manager is \<open>READY\<close> with the supported request still queued.
\<close>

theorem onModalHidden_drains_counterexample:
  "state (run example_env [Ready, ShowModal CONFIRM None, ShowModal ''modal-unknown'' None,
       ShowModal INPUT None, Hide, OnModalHidden] initial) = READY
   \<and> queue (run example_env [Ready, ShowModal CONFIRM None, ShowModal ''modal-unknown'' None,
       ShowModal INPUT None, Hide, OnModalHidden] initial)
     = [\<lparr>req_options = None, req_type = INPUT\<rparr>]"
  by (simp add: eval_defs)

text \<open>
  Claim C3, as the code has it. \<open>onModalHidden\<close> attempts \<open>unqueue\<close> again each time it
  runs: with a non-empty queue the oldest request leaves the queue, and if it is
  displayable the manager is \<open>OPEN\<close> with the content built from it. If the requests at
  positions \<open>0\<close> to \<open>n\<close> of the queue are displayable, whatever follows them, then hiding
  the current modal \<open>n + 1\<close> times displays these requests one at a time in arrival order:
  after the last of these rounds the manager is \<open>OPEN\<close>, its content is the content built
  from the request that was at position \<open>n\<close> of the queue, and the requests after it are
  still queued, in order.
\<close>

theorem onModalHidden_drains:
  "(queue s = r # rest \<longrightarrow>
      queue (snd (onModalHidden e s)) = rest
      \<and> (displayable e r \<longrightarrow>
           state (snd (onModalHidden e s)) = OPEN
           \<and> build_content e (req_type r) (req_options r)
               = Inr (content (snd (onModalHidden e s)))))
   \<and> (n < length (queue s) \<and> (\<forall>i\<le>n. displayable e (queue s ! i)) \<longrightarrow>
        state (run e (rounds (Suc n)) s) = OPEN
        \<and> build_content e (req_type (queue s ! n)) (req_options (queue s ! n))
            = Inr (content (run e (rounds (Suc n)) s))
        \<and> queue (run e (rounds (Suc n)) s) = drop (Suc n) (queue s))"
proof (intro conjI impI)
  assume q: "queue s = r # rest"
  then show "queue (snd (onModalHidden e s)) = rest"
    by (simp add: onModalHidden_def unqueue_def reset_modal_def internal_showModal_def
        split: sum.splits)
  {
    assume "displayable e r"
    from onModalHidden_shows_oldest [OF q this]
    show "state (snd (onModalHidden e s)) = OPEN"
      and "build_content e (req_type r) (req_options r) = Inr (content (snd (onModalHidden e s)))"
      by auto
  }
next
  assume "n < length (queue s) \<and> (\<forall>i\<le>n. displayable e (queue s ! i))"
  then have "state (run e (rounds (Suc n)) s) = OPEN
      \<and> build_content e (req_type (queue s ! n)) (req_options (queue s ! n))
          = Inr (content (run e (rounds (Suc n)) s))
      \<and> queue (run e (rounds (Suc n)) s) = drop (Suc n) (queue s)"
  proof (induction n arbitrary: s)
    case 0
    then obtain r0 rest0 where q: "queue s = r0 # rest0"
      by (cases "queue s") auto
    with 0 have "displayable e r0" by simp
    from round_shows_oldest [OF q this] q show ?case
      by (simp add: rounds_def)
  next
    case (Suc n)
    then obtain r0 rest0 where q: "queue s = r0 # rest0"
      by (cases "queue s") auto
    from Suc.prems have "displayable e (queue s ! 0)" by blast
    with q have d: "displayable e r0" by simp
    let ?s1 = "run e [Hide, OnModalHidden] s"
    have q1: "queue ?s1 = rest0"
      using round_shows_oldest [OF q d] by blast
    have r: "rounds (Suc (Suc n)) = [Hide, OnModalHidden] @ rounds (Suc n)"
      by (simp add: rounds_def)
    have "displayable e (queue ?s1 ! i)" if "i \<le> n" for i
    proof -
      from that Suc.prems have "displayable e (queue s ! Suc i)" by simp
      with q q1 show ?thesis by simp
    qed
    moreover have "n < length (queue ?s1)"
      using Suc.prems q q1 by simp
    ultimately have "n < length (queue ?s1) \<and> (\<forall>i\<le>n. displayable e (queue ?s1 ! i))"
      by blast
    from Suc.IH [OF this] show ?case
      unfolding r run_append using q q1 by simp
  qed
  then show "state (run e (rounds (Suc n)) s) = OPEN"
    and "build_content e (req_type (queue s ! n)) (req_options (queue s ! n))
          = Inr (content (run e (rounds (Suc n)) s))"
    and "queue (run e (rounds (Suc n)) s) = drop (Suc n) (queue s)"
    by simp_all
qed

theorem onModalHidden_drains_witness:
  "displayable example_env \<lparr>req_options = None, req_type = CONFIRM\<rparr>
   \<and> displayable example_env \<lparr>req_options = None, req_type = INPUT\<rparr>
   \<and> \<not> displayable example_env \<lparr>req_options = None, req_type = ''modal-unknown''\<rparr>
   \<and> state (run example_env (rounds 2) (initial\<lparr>queue :=
        [\<lparr>req_options = None, req_type = CONFIRM\<rparr>, \<lparr>req_options = None, req_type = INPUT\<rparr>,
         \<lparr>req_options = None, req_type = ''modal-unknown''\<rparr>]\<rparr>)) = OPEN
   \<and> currentType (content (run example_env (rounds 2) (initial\<lparr>queue :=
        [\<lparr>req_options = None, req_type = CONFIRM\<rparr>, \<lparr>req_options = None, req_type = INPUT\<rparr>,
         \<lparr>req_options = None, req_type = ''modal-unknown''\<rparr>]\<rparr>)))
       = Str INPUT
   \<and> queue (run example_env (rounds 2) (initial\<lparr>queue :=
        [\<lparr>req_options = None, req_type = CONFIRM\<rparr>, \<lparr>req_options = None, req_type = INPUT\<rparr>,
         \<lparr>req_options = None, req_type = ''modal-unknown''\<rparr>]\<rparr>))
       = [\<lparr>req_options = None, req_type = ''modal-unknown''\<rparr>]
   \<and> queue (snd (onModalHidden example_env (initial\<lparr>queue :=
        [\<lparr>req_options = None, req_type = ''modal-unknown''\<rparr>,
         \<lparr>req_options = None, req_type = INPUT\<rparr>]\<rparr>)))
       = [\<lparr>req_options = None, req_type = INPUT\<rparr>]"
proof -
  let ?c = "\<lparr>req_options = None, req_type = CONFIRM\<rparr>"
  let ?i = "\<lparr>req_options = None, req_type = INPUT\<rparr>"
  let ?u = "\<lparr>req_options = None, req_type = ''modal-unknown''\<rparr>"
  let ?s = "initial\<lparr>queue := [?c, ?i, ?u]\<rparr>"
  let ?t = "initial\<lparr>queue := [?u, ?i]\<rparr>"
  have dc: "displayable example_env ?c" and di: "displayable example_env ?i"
    by (simp_all add: displayable_def build_content_def switch_content_def TYPE_values_def
        TYPE_defs Let_def)
  have du: "\<not> displayable example_env ?u"
    by (simp add: displayable_def TYPE_values_def TYPE_defs)
  have d: "\<forall>i\<le>1. displayable example_env (queue ?s ! i)"
  proof (intro allI impI)
    fix i :: nat
    assume "i \<le> 1"
    then have "i = 0 \<or> i = 1" by arith
    with dc di show "displayable example_env (queue ?s ! i)" by auto
  qed
  have n: "1 < length (queue ?s)" by simp
  have b: "build_content example_env INPUT None = Inr c \<Longrightarrow> currentType c = Str INPUT" for c
    by (auto simp: build_content_def switch_content_def literal_content_def TYPE_defs Let_def)
  note drained = onModalHidden_drains [of ?s _ _ example_env 1, THEN conjunct2, THEN mp,
      OF conjI [OF n d]]
  note dropped = onModalHidden_drains [of ?t ?u "[?i]" example_env, THEN conjunct1, THEN mp,
      THEN conjunct1]
  have 1: "state (run example_env (rounds 2) ?s) = OPEN"
    using drained by (simp add: numeral_2_eq_2)
  have 2: "currentType (content (run example_env (rounds 2) ?s)) = Str INPUT"
    using drained b by (simp add: numeral_2_eq_2)
  have 3: "queue (run example_env (rounds 2) ?s) = [?u]"
    using drained by (simp add: numeral_2_eq_2)
  have 4: "queue (snd (onModalHidden example_env ?t)) = [?i]"
    using dropped by simp
  from dc di du 1 2 3 4 show ?thesis by blast
qed

subsection \<open>What onModalHidden leaves behind\<close>

text \<open>
  Claim C4 says that after every call of \<open>onModalHidden\<close> the manager is \<open>READY\<close> with the
  default content. \<open>onModalHidden\<close> ends with \<open>unqueue\<close>, so with a request waiting the
  call returns with the manager \<open>OPEN\<close> and the content of that request.
\<close>

theorem onModalHidden_counterexample:
  "state (snd (onModalHidden example_env
      (run example_env [Ready, ShowModal CONFIRM None, ShowModal INPUT None, Hide] initial))) = OPEN
   \<and> content (snd (onModalHidden example_env
      (run example_env [Ready, ShowModal CONFIRM None, ShowModal INPUT None, Hide] initial)))
     \<noteq> defaultContent"
  by (simp add: eval_defs)

text \<open>
  Claim C4, as the code has it. After every call of \<open>onModalHidden\<close> the input value is
  the empty string and the checkbox value is false. If the queue was empty, the manager is
  \<open>READY\<close> with the default content. In general the manager is either \<open>READY\<close> with the
  default content, or \<open>OPEN\<close> with the content built from the oldest queued request,
  which has left the queue.
\<close>

theorem onModalHidden_resets:
  "inputValue (snd (onModalHidden e s)) = []
   \<and> optionChecked (snd (onModalHidden e s)) = False
   \<and> (queue s = [] \<longrightarrow>
        onModalHidden e s = (None, reset_modal s)
        \<and> state (snd (onModalHidden e s)) = READY
        \<and> content (snd (onModalHidden e s)) = defaultContent)
   \<and> (state (snd (onModalHidden e s)) = READY \<and> content (snd (onModalHidden e s)) = defaultContent
      \<or> state (snd (onModalHidden e s)) = OPEN
        \<and> (\<exists>r rest. queue s = r # rest \<and> queue (snd (onModalHidden e s)) = rest
             \<and> req_type r \<in> set TYPE_values
             \<and> build_content e (req_type r) (req_options r) = Inr (content (snd (onModalHidden e s)))))"
proof (intro conjI impI)
  show "inputValue (snd (onModalHidden e s)) = []"
    by (simp add: onModalHidden_def unqueue_fields reset_modal_def)
  show "optionChecked (snd (onModalHidden e s)) = False"
    by (simp add: onModalHidden_def unqueue_fields reset_modal_def)
next
  assume q: "queue s = []"
  then show h: "onModalHidden e s = (None, reset_modal s)"
    by (simp add: onModalHidden_def unqueue_empty reset_modal_def)
  show "state (snd (onModalHidden e s)) = READY"
    unfolding h by (simp add: reset_modal_def)
  show "content (snd (onModalHidden e s)) = defaultContent"
    unfolding h by (simp add: reset_modal_def)
next
  show "state (snd (onModalHidden e s)) = READY \<and> content (snd (onModalHidden e s)) = defaultContent
      \<or> state (snd (onModalHidden e s)) = OPEN
        \<and> (\<exists>r rest. queue s = r # rest \<and> queue (snd (onModalHidden e s)) = rest
             \<and> req_type r \<in> set TYPE_values
             \<and> build_content e (req_type r) (req_options r) = Inr (content (snd (onModalHidden e s))))"
  proof (cases "queue s")
    case Nil
    then show ?thesis
      by (simp add: onModalHidden_def unqueue_def reset_modal_def)
  next
    case (Cons r rest)
    then show ?thesis
      by (simp add: onModalHidden_def unqueue_def reset_modal_def internal_showModal_def
          split: sum.splits)
  qed
qed

theorem onModalHidden_resets_witness:
  "queue (initial\<lparr>state := CLOSING, inputValue := ''typed'', optionChecked := True\<rparr>) = []
   \<and> onModalHidden example_env (initial\<lparr>state := CLOSING, inputValue := ''typed'', optionChecked := True\<rparr>)
       = (None, initial\<lparr>state := READY\<rparr>)"
  using onModalHidden_resets [of example_env
      "initial\<lparr>state := CLOSING, inputValue := ''typed'', optionChecked := True\<rparr>"]
  by (simp add: initial_def reset_modal_def)

subsection \<open>Content outside a modal\<close>




section \<open>Properties of the mention suggestion list\<close>

subsection \<open>Auxiliary facts\<close>

lemma clamp_bounds: "lower \<le> upper \<Longrightarrow> lower \<le> clamp v lower upper \<and> clamp v lower upper \<le> upper"
  by (simp add: clamp_def)

lemma actions_arrows:
  assumes "distinct [ARROW_UP K, ARROW_DOWN K, ENTER K, TAB K]"
  shows "actions K (ARROW_UP K) = Some (moveSelection 1)"
    and "actions K (ARROW_DOWN K) = Some (moveSelection (- 1))"
  using assms by (auto simp: actions_def)

lemma actions_commit:
  "actions K (ENTER K) = Some validateSelection" "actions K (TAB K) = Some validateSelection"
  by (auto simp: actions_def)

lemma keydown_arrow_index:
  assumes "distinct [ARROW_UP K, ARROW_DOWN K, ENTER K, TAB K]"
    and "key event = ARROW_UP K \<or> key event = ARROW_DOWN K"
    and "suggestions \<noteq> []"
  shows "0 \<le> selectedSuggestionIndex (snd (keydown K suggestions targetInput event c))
         \<and> selectedSuggestionIndex (snd (keydown K suggestions targetInput event c))
             \<le> int (length suggestions) - 1"
proof -
  from assms(3) have b: "(0::int) \<le> int (length suggestions) - 1"
    by (cases suggestions) simp_all
  from assms(2) obtain delta where a: "actions K (key event) = Some (moveSelection delta)"
    using actions_arrows [OF assms(1)] by auto
  then have "selectedSuggestionIndex (snd (keydown K suggestions targetInput event c))
      = clamp (selectedSuggestionIndex c + delta) 0 (int (length suggestions) - 1)"
    by (simp add: keydown_def onInput_def updateSelectedIndex_def)
  with clamp_bounds [OF b] show ?thesis by simp
qed

lemma rendered_nth:
  assumes "i < length suggestions"
  shows "rendered suggestions selected ! (length suggestions - 1 - i)
           = (suggestions ! i, int i = selected)"
proof -
  let ?items = "map (\<lambda>(index, suggestion). (suggestion, int index = selected)) (enumerate 0 suggestions)"
  have l: "length ?items = length suggestions" by simp
  have "rev ?items ! (length suggestions - 1 - i) = ?items ! i"
    using assms l by (simp add: rev_nth)
  also have "\<dots> = (suggestions ! i, int i = selected)"
    using assms by (simp add: nth_enumerate_eq)
  finally show ?thesis by (simp add: rendered_def)
qed

subsection \<open>The selection index\<close>

text \<open>
  Claim C6: for every suggestion list and every sequence of arrow-key events delivered to
  the mention suggestion list, the selection index is within
  \<open>[0, suggestions.length - 1]\<close> after each event. Key events reach the handler only while
  it is attached, that is, while the list is not empty. The statement is about every
  non-empty sequence of arrow-key events and every index the component may start with, so
  it covers the index after each event of a sequence. The four key names are taken to be
  different from each other.
\<close>

theorem selection_index_in_bounds:
  assumes "distinct [ARROW_UP K, ARROW_DOWN K, ENTER K, TAB K]"
    and "suggestions \<noteq> []"
    and "events \<noteq> []"
    and "\<forall>event \<in> set events. key event = ARROW_UP K \<or> key event = ARROW_DOWN K"
  shows "0 \<le> selectedSuggestionIndex (keydowns K suggestions targetInput events c)
         \<and> selectedSuggestionIndex (keydowns K suggestions targetInput events c)
             \<le> int (length suggestions) - 1"
  using assms(3,4)
proof (induction events arbitrary: c)
  case Nil
  then show ?case by simp
next
  case (Cons event events)
  show ?case
  proof (cases "events = []")
    case True
    with Cons.prems keydown_arrow_index [OF assms(1) _ assms(2), of event targetInput c]
    show ?thesis by simp
  next
    case False
    with Cons show ?thesis by simp
  qed
qed

theorem selection_index_in_bounds_witness:
  "distinct [ARROW_UP example_keys, ARROW_DOWN example_keys, ENTER example_keys, TAB example_keys]
   \<and> selectedSuggestionIndex (keydowns example_keys [''ann'', ''bob'', ''cy''] (Some 0)
        [\<lparr>key = ''ArrowUp'', shiftKey = False, defaultPrevented = False, propagationStopped = False\<rparr>,
         \<lparr>key = ''ArrowUp'', shiftKey = False, defaultPrevented = False, propagationStopped = False\<rparr>,
         \<lparr>key = ''ArrowUp'', shiftKey = False, defaultPrevented = False, propagationStopped = False\<rparr>,
         \<lparr>key = ''ArrowDown'', shiftKey = False, defaultPrevented = False, propagationStopped = False\<rparr>]
        \<lparr>selectedSuggestionIndex = 0, validated = []\<rparr>) = 1"
proof -
  let ?up = "\<lparr>key = ''ArrowUp'', shiftKey = False, defaultPrevented = False, propagationStopped = False\<rparr>"
  let ?down = "\<lparr>key = ''ArrowDown'', shiftKey = False, defaultPrevented = False, propagationStopped = False\<rparr>"
  have d: "distinct [ARROW_UP example_keys, ARROW_DOWN example_keys, ENTER example_keys, TAB example_keys]"
    by (simp add: example_keys_def)
  have e: "\<forall>event \<in> set [?up, ?up, ?up, ?down].
      key event = ARROW_UP example_keys \<or> key event = ARROW_DOWN example_keys"
    by (simp add: example_keys_def)
  have v: "selectedSuggestionIndex (keydowns example_keys [''ann'', ''bob'', ''cy''] (Some 0)
        [?up, ?up, ?up, ?down] \<lparr>selectedSuggestionIndex = 0, validated = []\<rparr>) = 1"
    by (simp add: keydown_def onInput_def actions_def example_keys_def updateSelectedIndex_def
        clamp_def preventDefault_def stopPropagation_def)
  from selection_index_in_bounds [OF d _ _ e, of "[''ann'', ''bob'', ''cy'']" "Some 0"
      "\<lparr>selectedSuggestionIndex = 0, validated = []\<rparr>"] d v
  show ?thesis by simp
qed

text \<open>
  Claim C7: an \<open>ARROW_UP\<close> key moves the selection index by \<open>+1\<close> and an \<open>ARROW_DOWN\<close>
  key by \<open>-1\<close>, each before clamping; the list is drawn in reverse, so the entry at a
  later position of the suggestion sequence is drawn earlier, and "up" moves toward it.
\<close>

theorem arrow_keys_move_selection:
  assumes "distinct [ARROW_UP K, ARROW_DOWN K, ENTER K, TAB K]"
  shows "(key event = ARROW_UP K \<longrightarrow>
            onInput K suggestions selected targetInput event c
              = (event\<lparr>defaultPrevented := True, propagationStopped := True\<rparr>,
                 c\<lparr>selectedSuggestionIndex :=
                     clamp (selectedSuggestionIndex c + 1) 0 (int (length suggestions) - 1)\<rparr>))
         \<and> (key event = ARROW_DOWN K \<longrightarrow>
            onInput K suggestions selected targetInput event c
              = (event\<lparr>defaultPrevented := True, propagationStopped := True\<rparr>,
                 c\<lparr>selectedSuggestionIndex :=
                     clamp (selectedSuggestionIndex c - 1) 0 (int (length suggestions) - 1)\<rparr>))
         \<and> (\<forall>i. i < length suggestions \<longrightarrow>
               rendered suggestions selected ! (length suggestions - 1 - i)
                 = (suggestions ! i, int i = selected))"
proof (intro conjI impI allI)
  assume "key event = ARROW_UP K"
  then show "onInput K suggestions selected targetInput event c
      = (event\<lparr>defaultPrevented := True, propagationStopped := True\<rparr>,
         c\<lparr>selectedSuggestionIndex :=
             clamp (selectedSuggestionIndex c + 1) 0 (int (length suggestions) - 1)\<rparr>)"
    using actions_arrows(1) [OF assms]
    by (simp add: onInput_def updateSelectedIndex_def preventDefault_def stopPropagation_def)
next
  assume "key event = ARROW_DOWN K"
  then show "onInput K suggestions selected targetInput event c
      = (event\<lparr>defaultPrevented := True, propagationStopped := True\<rparr>,
         c\<lparr>selectedSuggestionIndex :=
             clamp (selectedSuggestionIndex c - 1) 0 (int (length suggestions) - 1)\<rparr>)"
    using actions_arrows(2) [OF assms]
    by (simp add: onInput_def updateSelectedIndex_def preventDefault_def stopPropagation_def)
next
  fix i
  assume "i < length suggestions"
  then show "rendered suggestions selected ! (length suggestions - 1 - i)
      = (suggestions ! i, int i = selected)"
    by (rule rendered_nth)
qed

theorem arrow_keys_move_selection_witness:
  "distinct [ARROW_UP example_keys, ARROW_DOWN example_keys, ENTER example_keys, TAB example_keys]
   \<and> onInput example_keys [''ann'', ''bob'', ''cy''] 1 (Some 0)
        \<lparr>key = ''ArrowUp'', shiftKey = False, defaultPrevented = False, propagationStopped = False\<rparr>
        \<lparr>selectedSuggestionIndex = 1, validated = []\<rparr>
      = (\<lparr>key = ''ArrowUp'', shiftKey = False, defaultPrevented = True, propagationStopped = True\<rparr>,
         \<lparr>selectedSuggestionIndex = 2, validated = []\<rparr>)
   \<and> onInput example_keys [''ann'', ''bob'', ''cy''] 1 (Some 0)
        \<lparr>key = ''ArrowDown'', shiftKey = False, defaultPrevented = False, propagationStopped = False\<rparr>
        \<lparr>selectedSuggestionIndex = 1, validated = []\<rparr>
      = (\<lparr>key = ''ArrowDown'', shiftKey = False, defaultPrevented = True, propagationStopped = True\<rparr>,
         \<lparr>selectedSuggestionIndex = 0, validated = []\<rparr>)
   \<and> rendered [''ann'', ''bob'', ''cy''] 1 ! 1 = (''bob'', True)
   \<and> rendered [''ann'', ''bob'', ''cy''] 1 ! 0 = (''cy'', False)"
proof -
  have d: "distinct [ARROW_UP example_keys, ARROW_DOWN example_keys, ENTER example_keys, TAB example_keys]"
    by (simp add: example_keys_def)
  have k: "ARROW_UP example_keys = ''ArrowUp''" "ARROW_DOWN example_keys = ''ArrowDown''"
    by (simp_all add: example_keys_def)
  note t = arrow_keys_move_selection [OF d, of _ "[''ann'', ''bob'', ''cy'']" 1 "Some 0"
      "\<lparr>selectedSuggestionIndex = 1, validated = []\<rparr>"]
  note r0 = t [of "\<lparr>key = ''ArrowUp'', shiftKey = False, defaultPrevented = False, propagationStopped = False\<rparr>",
        THEN conjunct2, THEN conjunct2, THEN spec]
  have r: "rendered [''ann'', ''bob'', ''cy''] 1 ! 1 = (''bob'', True)
      \<and> rendered [''ann'', ''bob'', ''cy''] 1 ! 0 = (''cy'', False)"
    using r0 [of 1] r0 [of 2] by simp
  show ?thesis
    using t [of "\<lparr>key = ''ArrowUp'', shiftKey = False, defaultPrevented = False, propagationStopped = False\<rparr>"]
      t [of "\<lparr>key = ''ArrowDown'', shiftKey = False, defaultPrevented = False, propagationStopped = False\<rparr>"]
      d k r
    by (simp add: clamp_def)
qed

subsection \<open>Committing a selection\<close>

text \<open>
  Claim C8: for an Enter or Tab key event delivered to the target input, if shift is not
  held then the suggestion at the current selection index is passed to
  \<open>onSelectionValidated\<close> and the event's default behaviour and propagation are
  suppressed; if shift is held then nothing is committed and the event is left as it was.
\<close>

theorem enter_tab_commit_selection:
  assumes "key event = ENTER K \<or> key event = TAB K"
  shows "(\<not> shiftKey event \<longrightarrow>
            onInput K suggestions selected (Some el) event c
              = (event\<lparr>defaultPrevented := True, propagationStopped := True\<rparr>,
                 c\<lparr>validated := validated c @ [(at_index suggestions selected, el)]\<rparr>))
         \<and> (shiftKey event \<longrightarrow> onInput K suggestions selected (Some el) event c = (event, c))
         \<and> (0 \<le> selected \<and> selected < int (length suggestions) \<longrightarrow>
              at_index suggestions selected = Some (suggestions ! nat selected))"
proof -
  from assms have a: "actions K (key event) = Some validateSelection"
    using actions_commit [of K] by auto
  show ?thesis
    by (simp add: onInput_def a preventDefault_def stopPropagation_def at_index_def)
qed

theorem enter_tab_commit_selection_witness:
  "onInput example_keys [''ann'', ''bob'', ''cy''] 1 (Some 7)
        \<lparr>key = ''Enter'', shiftKey = False, defaultPrevented = False, propagationStopped = False\<rparr>
        \<lparr>selectedSuggestionIndex = 1, validated = []\<rparr>
      = (\<lparr>key = ''Enter'', shiftKey = False, defaultPrevented = True, propagationStopped = True\<rparr>,
         \<lparr>selectedSuggestionIndex = 1, validated = [(Some ''bob'', 7)]\<rparr>)
   \<and> onInput example_keys [''ann'', ''bob'', ''cy''] 1 (Some 7)
        \<lparr>key = ''Tab'', shiftKey = True, defaultPrevented = False, propagationStopped = False\<rparr>
        \<lparr>selectedSuggestionIndex = 1, validated = []\<rparr>
      = (\<lparr>key = ''Tab'', shiftKey = True, defaultPrevented = False, propagationStopped = False\<rparr>,
         \<lparr>selectedSuggestionIndex = 1, validated = []\<rparr>)"
proof -
  have k: "ENTER example_keys = ''Enter''" "TAB example_keys = ''Tab''"
    by (simp_all add: example_keys_def)
  show ?thesis
    using enter_tab_commit_selection [of
        "\<lparr>key = ''Enter'', shiftKey = False, defaultPrevented = False, propagationStopped = False\<rparr>"
        example_keys "[''ann'', ''bob'', ''cy'']" 1 7 "\<lparr>selectedSuggestionIndex = 1, validated = []\<rparr>"]
      enter_tab_commit_selection [of
        "\<lparr>key = ''Tab'', shiftKey = True, defaultPrevented = False, propagationStopped = False\<rparr>"
        example_keys "[''ann'', ''bob'', ''cy'']" 1 7 "\<lparr>selectedSuggestionIndex = 1, validated = []\<rparr>"]
      k
    by simp
qed

subsection \<open>The keydown listener\<close>

text \<open>
  Claim C9: the keydown listener is attached to the target input only while the
  suggestion sequence is not empty and the target input exists, and the listener that an
  effect run installs is removed by the cleanup of that run, so that no handler stays
  attached after the cleanup. The handler of an effect run is a new function, attached
  nowhere before the run.
\<close>

theorem keydown_listener_lifecycle:
  assumes "\<forall>x. (''keydown'', h) \<notin> set (d x)"
  shows "((''keydown'', h) \<in> set (fst (effect_run suggestions targetInput h (d, c)) el)
            \<longleftrightarrow> suggestions \<noteq> [] \<and> targetInput = Some el)
         \<and> effect_cleanup targetInput h (fst (effect_run suggestions targetInput h (d, c))) = d
         \<and> (\<forall>x. (''keydown'', h) \<notin>
               set (effect_cleanup targetInput h (fst (effect_run suggestions targetInput h (d, c))) x))"
proof -
  have f: "filter (\<lambda>l. l \<noteq> (''keydown'', h)) (d x) = d x" for x
    using assms by (induction "d x") (auto simp: filter_id_conv)
  have 1: "(''keydown'', h) \<in> set (fst (effect_run suggestions targetInput h (d, c)) el)
      \<longleftrightarrow> suggestions \<noteq> [] \<and> targetInput = Some el"
    using assms by (auto simp: effect_run_def addEventListener_def split: option.splits)
  have 2: "effect_cleanup targetInput h (fst (effect_run suggestions targetInput h (d, c))) = d"
    using assms f
    by (auto simp: effect_run_def effect_cleanup_def addEventListener_def removeEventListener_def
        split: option.splits)
  from 1 2 assms show ?thesis by simp
qed

theorem keydown_listener_lifecycle_witness:
  "(\<forall>x. (''keydown'', 1) \<notin> set ((\<lambda>x. []) x))
   \<and> fst (effect_run [''ann''] (Some 7) 1 (\<lambda>x. [], \<lparr>selectedSuggestionIndex = 0, validated = []\<rparr>)) 7
       = [(''keydown'', 1)]
   \<and> fst (effect_run ([] :: string list) (Some 7) 1 (\<lambda>x. [], \<lparr>selectedSuggestionIndex = 0, validated = []\<rparr>)) 7
       = []
   \<and> effect_cleanup (Some 7) 1
       (fst (effect_run [''ann''] (Some 7) 1 (\<lambda>x. [], \<lparr>selectedSuggestionIndex = 0, validated = []\<rparr>)))
       = (\<lambda>x. [])"
proof -
  have a: "\<forall>x. (''keydown'', 1::nat) \<notin> set ((\<lambda>x::nat. []) x)" by simp
  have e1: "fst (effect_run [''ann''] (Some 7) 1 (\<lambda>x. [], \<lparr>selectedSuggestionIndex = 0, validated = []\<rparr>)) 7
       = [(''keydown'', 1)]"
    by (simp add: effect_run_def addEventListener_def)
  have e2: "fst (effect_run ([] :: string list) (Some 7) 1 (\<lambda>x. [], \<lparr>selectedSuggestionIndex = 0, validated = []\<rparr>)) 7
       = []"
    by (simp add: effect_run_def addEventListener_def)
  from keydown_listener_lifecycle [OF a, of "[''ann'']" "Some 7" "\<lparr>selectedSuggestionIndex = 0, validated = []\<rparr>" 7]
    e1 e2
  show ?thesis by simp
qed

section \<open>Properties of the conversations sidebar\<close>

text \<open>
  Claim C10: every call of \<open>changeTab\<close> resets the conversations filter to the empty
  string and makes the target tab the current one, and it calls
  \<open>updateArchivedConversations\<close> once if the target tab is \<open>ARCHIVES\<close> and not at all
  otherwise.
\<close>

theorem changeTab_resets_filter:
  "conversationsFilter (changeTab nextTab s) = []
   \<and> currentTab (changeTab nextTab s) = nextTab
   \<and> take (length (calls s)) (calls (changeTab nextTab s)) = calls s
   \<and> count_list (drop (length (calls s)) (calls (changeTab nextTab s))) updateArchivedConversations
       = (if nextTab = ARCHIVES then 1 else 0)"
  by (simp add: changeTab_def onExitPreferences_def Let_def)

end
